theory Spec2Isabelle
  imports Complex_Main
begin

section \<open>Strings\<close>

text \<open>
  A JavaScript string is modelled as a \<^typ>\<open>string\<close> whose characters are the code units
  below 256. Colour escape sequences and pictographs of the console texts, with the
  spaces that follow a pictograph, are left out of the modelled texts; every other
  character of a text is kept. The arguments of one \<^verbatim>\<open>console.error\<close> call are joined with a
  space, as the console prints them.
\<close>

definition newline :: char where
  "newline = CHR 0x0A"

text \<open>The white space and line terminators of \<^verbatim>\<open>String.prototype.trim\<close> among these code units.\<close>

definition is_space :: "char \<Rightarrow> bool" where
  "is_space c = (c \<in> set [CHR 0x09, CHR 0x0A, CHR 0x0B, CHR 0x0C, CHR 0x0D, CHR 0x20, CHR 0xA0])"

definition trim :: "string \<Rightarrow> string" where
  "trim s = rev (dropWhile is_space (rev (dropWhile is_space s)))"

definition lower_char :: "char \<Rightarrow> char" where
  "lower_char c =
     (let n = (of_char c :: nat)
      in if (65 \<le> n \<and> n \<le> 90) \<or> (192 \<le> n \<and> n \<le> 222 \<and> n \<noteq> 215)
         then char_of (n + 32) else c)"

definition toLowerCase :: "string \<Rightarrow> string" where
  "toLowerCase s = map lower_char s"

text \<open>\<^verbatim>\<open>Array.prototype.join\<close> on an array of strings.\<close>

fun join :: "string \<Rightarrow> string list \<Rightarrow> string" where
  "join sep [] = []"
| "join sep [x] = x"
| "join sep (x # y # ys) = x @ sep @ join sep (y # ys)"

text \<open>The decimal text of a number, as a template literal renders it.\<close>

fun show_nat :: "nat \<Rightarrow> string" where
  "show_nat n =
     (if n < 10 then [char_of (48 + n)]
      else show_nat (n div 10) @ [char_of (48 + n mod 10)])"

declare show_nat.simps [simp del]

definition repeat :: "string \<Rightarrow> nat \<Rightarrow> string" where
  "repeat s n = concat (replicate n s)"


section \<open>Data of the program and of the text-generation library\<close>

record config =
  model :: string
  dtype :: string
  maxTokens :: nat
  temperature :: real

definition CONFIG :: config where
  "CONFIG = \<lparr> model = ''onnx-community/DeepSeek-R1-Distill-Qwen-1.5B-ONNX'',
              dtype = ''q4f16'',
              maxTokens = 512,
              temperature = 0.7 \<rparr>"

record chat_message =
  role :: string
  content :: string

datatype text_streamer = TextStreamer (skip_prompt: bool)

record gen_opts =
  max_new_tokens :: nat
  do_sample :: bool
  streamer :: "text_streamer option"

record gen_item =
  generated_text :: "chat_message list"

datatype js_error = JsError (message: string)

text \<open>
  The library is a parameter of the model. A generator takes the messages and the options
  and either throws or returns its output array; \<^verbatim>\<open>pipeline(task, model, options)\<close> either
  throws or returns a generator.
\<close>

type_synonym generator = "chat_message list \<Rightarrow> gen_opts \<Rightarrow> js_error + gen_item list"

type_synonym pipeline = "string \<Rightarrow> string \<Rightarrow> string \<Rightarrow> js_error + generator"

text \<open>What the process does that can be observed, in order.\<close>

datatype event =
    ConsoleLog string
  | ConsoleError string
  | ConsoleClear
  | PipelineCall string string string
  | GeneratorCall "chat_message list" gen_opts
  | Question string
  | RlClose

definition gen_call_of :: "event \<Rightarrow> (chat_message list \<times> gen_opts) list" where
  "gen_call_of ev = (case ev of GeneratorCall ms opts \<Rightarrow> [(ms, opts)] | _ \<Rightarrow> [])"

definition gen_calls :: "event list \<Rightarrow> (chat_message list \<times> gen_opts) list" where
  "gen_calls evs = concat (map gen_call_of evs)"

definition load_attempt_of :: "event \<Rightarrow> (string \<times> string \<times> string) list" where
  "load_attempt_of ev = (case ev of PipelineCall t m d \<Rightarrow> [(t, m, d)] | _ \<Rightarrow> [])"

definition load_attempts :: "event list \<Rightarrow> (string \<times> string \<times> string) list" where
  "load_attempts evs = concat (map load_attempt_of evs)"


section \<open>The application\<close>

definition displayBanner :: "event list" where
  "displayBanner =
     [ConsoleLog ([newline] @ repeat ''='' 70),
      ConsoleLog ''ZERO CLOUD LLM - NPU Accelerated Inference'',
      ConsoleLog (repeat ''='' 70),
      ConsoleLog (''Model: '' @ model CONFIG),
      ConsoleLog (''Quantization: '' @ dtype CONFIG),
      ConsoleLog (''Max Tokens: '' @ show_nat (maxTokens CONFIG)),
      ConsoleLog (repeat ''='' 70 @ [newline])]"

text \<open>
  \<^verbatim>\<open>initializePipeline\<close>: one call of \<^verbatim>\<open>pipeline\<close> with the configured \<^verbatim>\<open>dtype\<close>; an error
  is logged and thrown again.
\<close>

definition initializePipeline :: "pipeline \<Rightarrow> event list \<times> (js_error + generator)" where
  "initializePipeline pl =
     (let pre = [ConsoleLog ''Loading model...'',
                 ConsoleLog ''First run will download the model (~1GB). Please wait...'',
                 ConsoleLog '''',
                 PipelineCall ''text-generation'' (model CONFIG) (dtype CONFIG)]
      in case pl ''text-generation'' (model CONFIG) (dtype CONFIG) of
           Inr generator \<Rightarrow>
             (pre @ [ConsoleLog ''Model loaded successfully!'',
                     ConsoleLog ''NPU acceleration active (if available on your hardware)'',
                     ConsoleLog ''''],
              Inr generator)
         | Inl error \<Rightarrow>
             (pre @ [ConsoleError (''Error loading model: '' @ message error)], Inl error))"

text \<open>
  \<^verbatim>\<open>output[0].generated_text.at(-1).content\<close>: reading a property of \<^verbatim>\<open>undefined\<close>
  throws a \<^verbatim>\<open>TypeError\<close>.
\<close>

definition generated_content :: "gen_item list \<Rightarrow> js_error + string" where
  "generated_content output =
     (case output of
        [] \<Rightarrow> Inl (JsError ''Cannot read properties of undefined (reading 'generated_text')'')
      | item # _ \<Rightarrow>
          (case generated_text item of
             [] \<Rightarrow> Inl (JsError ''Cannot read properties of undefined (reading 'content')'')
           | m # ms \<Rightarrow> Inr (content (last (m # ms)))))"

definition generateResponse ::
  "generator \<Rightarrow> string \<Rightarrow> bool \<Rightarrow> event list \<times> (js_error + string)" where
  "generateResponse generator prompt streaming =
     (let messages = [\<lparr> role = ''user'', content = prompt \<rparr>]
      in if streaming then
           (let opts = \<lparr> max_new_tokens = maxTokens CONFIG, do_sample = False,
                         streamer = Some (TextStreamer True) \<rparr>;
                pre = [ConsoleLog ''Assistant: '', GeneratorCall messages opts]
            in case generator messages opts of
                 Inl error \<Rightarrow>
                   (pre @ [ConsoleError (''Error during generation: '' @ message error)], Inl error)
               | Inr output \<Rightarrow>
                   (case generated_content output of
                      Inl error \<Rightarrow>
                        (pre @ [ConsoleLog [newline],
                                ConsoleError (''Error during generation: '' @ message error)],
                         Inl error)
                    | Inr response \<Rightarrow> (pre @ [ConsoleLog [newline]], Inr response)))
         else
           (let opts = \<lparr> max_new_tokens = maxTokens CONFIG, do_sample = False,
                         streamer = None \<rparr>;
                pre = [GeneratorCall messages opts]
            in case generator messages opts of
                 Inl error \<Rightarrow>
                   (pre @ [ConsoleError (''Error during generation: '' @ message error)], Inl error)
               | Inr output \<Rightarrow>
                   (case generated_content output of
                      Inl error \<Rightarrow>
                        (pre @ [ConsoleError (''Error during generation: '' @ message error)],
                         Inl error)
                    | Inr response \<Rightarrow>
                        (pre @ [ConsoleLog (''Assistant: '' @ response), ConsoleLog ''''],
                         Inr response))))"

definition demos :: "string list" where
  "demos = [''Solve the equation: x^2 - 3x + 2 = 0'',
            ''What is the capital of Indonesia?'',
            ''Explain quantum computing in simple terms'']"

text \<open>
  The \<^verbatim>\<open>for\<close> loop of \<^verbatim>\<open>runDemoMode\<close> from index \<open>i\<close>, over the prompts \<open>ps\<close> that are left of a
  list of \<open>n\<close> prompts. An error of \<^verbatim>\<open>generateResponse\<close> is not caught here: it leaves the loop.
\<close>

fun demo_loop :: "generator \<Rightarrow> nat \<Rightarrow> nat \<Rightarrow> string list \<Rightarrow> event list \<times> (js_error + unit)" where
  "demo_loop generator n i [] = ([], Inr ())"
| "demo_loop generator n i (p # ps) =
     (let pre = [ConsoleLog (''[Demo '' @ show_nat (i + 1) @ ''/'' @ show_nat n @ '']''),
                 ConsoleLog (''User: '' @ p),
                 ConsoleLog '''']
      in case generateResponse generator p True of
           (t, Inl error) \<Rightarrow> (pre @ t, Inl error)
         | (t, Inr response) \<Rightarrow>
             (let sep = (if i + 1 < n then [ConsoleLog (repeat ''-'' 70 @ [newline])] else [])
              in case demo_loop generator n (i + 1) ps of
                   (t', r) \<Rightarrow> (pre @ t @ sep @ t', r)))"

definition runDemoMode :: "generator \<Rightarrow> event list \<times> (js_error + unit)" where
  "runDemoMode generator =
     (let pre = [ConsoleLog ([newline] @ repeat ''='' 70),
                 ConsoleLog ''DEMO MODE - Running Sample Prompts'',
                 ConsoleLog (repeat ''='' 70 @ [newline])]
      in case demo_loop generator (length demos) 0 demos of
           (t, r) \<Rightarrow> (pre @ t, r))"

text \<open>
  \<^verbatim>\<open>askQuestion\<close>, over the lines that the pending question receives. With no line left the
  input has ended: the question stays unanswered and the interface closes.
\<close>

fun askQuestion :: "generator \<Rightarrow> string list \<Rightarrow> event list" where
  "askQuestion generator [] = [Question ''You: '']"
| "askQuestion generator (input # rest) =
     Question ''You: '' #
     (let userInput = trim input
      in if userInput = [] then askQuestion generator rest
         else if toLowerCase userInput \<in> set [''quit'', ''exit'', ''q''] then
           [ConsoleLog ([newline] @ ''Goodbye!'' @ [newline]), RlClose]
         else if toLowerCase userInput = ''clear'' then
           [ConsoleClear] @ displayBanner @ askQuestion generator rest
         else
           [ConsoleLog ''''] @
           (case generateResponse generator userInput True of
              (t, Inl error) \<Rightarrow> t @ [ConsoleError (''Error: '' @ message error)]
            | (t, Inr response) \<Rightarrow> t) @
           askQuestion generator rest)"

declare askQuestion.simps [simp del]

definition runInteractiveMode :: "generator \<Rightarrow> string list \<Rightarrow> event list" where
  "runInteractiveMode generator lines =
     [ConsoleLog (repeat ''='' 70),
      ConsoleLog ''INTERACTIVE MODE'',
      ConsoleLog (repeat ''='' 70),
      ConsoleLog ''Commands:'',
      ConsoleLog ''  - Type your prompt and press Enter'',
      ConsoleLog ''  - Type 'quit' or 'exit' to exit'',
      ConsoleLog ''  - Type 'clear' to clear screen'',
      ConsoleLog (repeat ''='' 70 @ [newline])] @
     askQuestion generator lines"

definition runSinglePrompt :: "generator \<Rightarrow> string \<Rightarrow> event list \<times> (js_error + unit)" where
  "runSinglePrompt generator prompt =
     (let pre = [ConsoleLog (''User: '' @ prompt), ConsoleLog '''']
      in case generateResponse generator prompt True of
           (t, Inl error) \<Rightarrow> (pre @ t, Inl error)
         | (t, Inr response) \<Rightarrow> (pre @ t, Inr ()))"

definition usage :: "event list" where
  "usage =
     [ConsoleLog ([newline] @ ''Usage:''),
      ConsoleLog ''  node src/main.js                    # Interactive mode'',
      ConsoleLog ''  node src/main.js --demo             # Demo mode'',
      ConsoleLog ''  node src/main.js --prompt \"text\"    # Single prompt'']"

text \<open>
  The report of the \<^verbatim>\<open>catch\<close> of \<^verbatim>\<open>main\<close>. The console prints the error object there; the
  model keeps its message.
\<close>

definition fatal :: "js_error \<Rightarrow> event list" where
  "fatal error = [ConsoleError ([newline] @ ''Fatal error: '' @ message error)]"

text \<open>
  \<^verbatim>\<open>main\<close>, for the library \<open>pl\<close>, the arguments \<open>args\<close> (\<^verbatim>\<open>process.argv.slice(2)\<close>) and the
  lines typed at the prompt. The result is the trace and the exit status of the process:
  \<^verbatim>\<open>process.exit(1)\<close> ends it with 1, and a process with nothing left to do ends with 0.
\<close>

definition main :: "pipeline \<Rightarrow> string list \<Rightarrow> string list \<Rightarrow> event list \<times> nat" where
  "main pl args lines =
     (case initializePipeline pl of
        (t0, Inl error) \<Rightarrow> (displayBanner @ t0 @ fatal error, 1)
      | (t0, Inr generator) \<Rightarrow>
          (case args of
             [] \<Rightarrow> (displayBanner @ t0 @ runInteractiveMode generator lines, 0)
           | a # as \<Rightarrow>
               if a = ''--demo'' then
                 (case runDemoMode generator of
                    (t, Inl error) \<Rightarrow> (displayBanner @ t0 @ t @ fatal error, 1)
                  | (t, Inr u) \<Rightarrow> (displayBanner @ t0 @ t, 0))
               else if a = ''--prompt'' then
                 (if length (a # as) < 2 then
                    (displayBanner @ t0 @
                     [ConsoleError ''Error: --prompt requires a prompt argument''] @ usage, 1)
                  else
                    (case runSinglePrompt generator (join '' '' as) of
                       (t, Inl error) \<Rightarrow> (displayBanner @ t0 @ t @ fatal error, 1)
                     | (t, Inr u) \<Rightarrow> (displayBanner @ t0 @ t, 0)))
               else
                 (displayBanner @ t0 @ [ConsoleError (''Unknown argument: '' @ a)] @ usage, 1)))"


section \<open>Notions used to state the properties\<close>

text \<open>A conversation of one user turn, and the options of a streaming generation call.\<close>

definition single_turn :: "string \<Rightarrow> chat_message list" where
  "single_turn p = [\<lparr> role = ''user'', content = p \<rparr>]"

definition stream_opts :: gen_opts where
  "stream_opts = \<lparr> max_new_tokens = 512, do_sample = False, streamer = Some (TextStreamer True) \<rparr>"

text \<open>What the interactive loop does on an exit keyword, from the question on.\<close>

definition goodbye :: "event list" where
  "goodbye = [Question ''You: '', ConsoleLog ([newline] @ ''Goodbye!'' @ [newline]), RlClose]"

text \<open>Concrete libraries, for the examples.\<close>

definition echo_generator :: generator where
  "echo_generator ms opts =
     Inr [\<lparr> generated_text = ms @ [\<lparr> role = ''assistant'', content = ''ok'' \<rparr>] \<rparr>]"

definition failing_generator :: generator where
  "failing_generator ms opts = Inl (JsError ''out of memory'')"

definition ready_pipeline :: "generator \<Rightarrow> pipeline" where
  "ready_pipeline g t m d = Inr g"

definition fp32_only_pipeline :: "generator \<Rightarrow> pipeline" where
  "fp32_only_pipeline g t m d =
     (if d = ''fp32'' then Inr g else Inl (JsError (''unsupported precision '' @ d)))"

definition never_loading_pipeline :: pipeline where
  "never_loading_pipeline t m d = Inl (JsError (''cannot load '' @ d))"


text \<open>
  The prompts of a list up to and including the first one whose generation fails (all of
  them when none fails).
\<close>

fun upto_first_failure :: "generator \<Rightarrow> string list \<Rightarrow> string list" where
  "upto_first_failure g [] = []"
| "upto_first_failure g (p # ps) =
     (if isl (snd (generateResponse g p True)) then [p] else p # upto_first_failure g ps)"

text \<open>A generator that throws on the second demo prompt and answers every other prompt.\<close>

definition capital_failing_generator :: generator where
  "capital_failing_generator ms opts =
     (if ms = [\<lparr> role = ''user'', content = ''What is the capital of Indonesia?'' \<rparr>]
      then Inl (JsError ''out of memory'')
      else Inr [\<lparr> generated_text = ms @ [\<lparr> role = ''assistant'', content = ''ok'' \<rparr>] \<rparr>])"


text \<open>
  A library whose engines take a random seed: the pipeline fixes the seed of the engine it
  returns. The example engine consults its seed only when sampling is asked for.
\<close>

definition seeded :: "(string \<Rightarrow> string \<Rightarrow> string \<Rightarrow> js_error + ('r \<Rightarrow> generator)) \<Rightarrow> 'r \<Rightarrow> pipeline" where
  "seeded spl r t m d = (case spl t m d of Inl e \<Rightarrow> Inl e | Inr engine \<Rightarrow> Inr (engine r))"

definition sampling_engine :: "nat \<Rightarrow> generator" where
  "sampling_engine r ms opts =
     Inr [\<lparr> generated_text =
             ms @ [\<lparr> role = ''assistant'',
                      content = (if do_sample opts then show_nat r else ''42'') \<rparr>] \<rparr>]"

definition sampling_pipeline :: "string \<Rightarrow> string \<Rightarrow> string \<Rightarrow> js_error + (nat \<Rightarrow> generator)" where
  "sampling_pipeline t m d = Inr sampling_engine"


section \<open>Traces\<close>

lemma gen_calls_Nil [simp]: "gen_calls [] = []"
  by (simp add: gen_calls_def)

lemma gen_calls_append [simp]: "gen_calls (xs @ ys) = gen_calls xs @ gen_calls ys"
  by (simp add: gen_calls_def)

lemma gen_calls_Cons [simp]:
  "gen_calls (ConsoleLog s # es) = gen_calls es"
  "gen_calls (ConsoleError s # es) = gen_calls es"
  "gen_calls (ConsoleClear # es) = gen_calls es"
  "gen_calls (PipelineCall t m d # es) = gen_calls es"
  "gen_calls (GeneratorCall ms opts # es) = (ms, opts) # gen_calls es"
  "gen_calls (Question s # es) = gen_calls es"
  "gen_calls (RlClose # es) = gen_calls es"
  by (simp_all add: gen_calls_def gen_call_of_def)

lemma load_attempts_Nil [simp]: "load_attempts [] = []"
  by (simp add: load_attempts_def)

lemma load_attempts_append [simp]: "load_attempts (xs @ ys) = load_attempts xs @ load_attempts ys"
  by (simp add: load_attempts_def)

lemma load_attempts_Cons [simp]:
  "load_attempts (ConsoleLog s # es) = load_attempts es"
  "load_attempts (ConsoleError s # es) = load_attempts es"
  "load_attempts (ConsoleClear # es) = load_attempts es"
  "load_attempts (PipelineCall t m d # es) = (t, m, d) # load_attempts es"
  "load_attempts (GeneratorCall ms opts # es) = load_attempts es"
  "load_attempts (Question s # es) = load_attempts es"
  "load_attempts (RlClose # es) = load_attempts es"
  by (simp_all add: load_attempts_def load_attempt_of_def)

lemma gen_calls_displayBanner [simp]: "gen_calls displayBanner = []"
  by (simp add: displayBanner_def)

lemma gen_calls_usage [simp]: "gen_calls usage = []"
  by (simp add: usage_def)

lemma gen_calls_fatal [simp]: "gen_calls (fatal e) = []"
  by (simp add: fatal_def)

lemma load_attempts_displayBanner [simp]: "load_attempts displayBanner = []"
  by (simp add: displayBanner_def)

lemma load_attempts_usage [simp]: "load_attempts usage = []"
  by (simp add: usage_def)

lemma load_attempts_fatal [simp]: "load_attempts (fatal e) = []"
  by (simp add: fatal_def)

lemma maxTokens_CONFIG [simp]: "maxTokens CONFIG = 512"
  by (simp add: CONFIG_def)

lemma gen_calls_generateResponse:
  "gen_calls (fst (generateResponse g p True)) = [(single_turn p, stream_opts)]"
  by (simp add: generateResponse_def Let_def single_turn_def stream_opts_def split: sum.splits)

lemma gen_calls_initializePipeline [simp]: "gen_calls (fst (initializePipeline pl)) = []"
  by (simp add: initializePipeline_def Let_def split: sum.splits)

lemma load_attempts_initializePipeline:
  "load_attempts (fst (initializePipeline pl)) = [(''text-generation'', model CONFIG, dtype CONFIG)]"
  by (simp add: initializePipeline_def Let_def split: sum.splits)

lemma snd_initializePipeline:
  "snd (initializePipeline pl) = pl ''text-generation'' (model CONFIG) (dtype CONFIG)"
  by (simp add: initializePipeline_def Let_def split: sum.splits)

lemma is_space_lower: "is_space c \<Longrightarrow> lower_char c = c"
  by (auto simp: is_space_def lower_char_def)

lemma trim_pad:
  assumes "list_all is_space ws1" "list_all is_space ws2"
  shows "trim (ws1 @ s @ ws2) = trim s"
proof (cases "list_all is_space s")
  case True
  with assms have e: "dropWhile is_space (ws1 @ s @ ws2) = []" "dropWhile is_space s = []"
    by (auto simp: list_all_iff)
  show ?thesis unfolding trim_def e by simp
next
  case False
  then obtain x where x: "x \<in> set s" "\<not> is_space x" by (auto simp: list_all_iff)
  have "dropWhile is_space (ws1 @ s @ ws2) = dropWhile is_space (s @ ws2)"
    using assms(1) by (intro dropWhile_append2) (simp add: list_all_iff)
  also have "\<dots> = dropWhile is_space s @ ws2"
    using x by (rule dropWhile_append1)
  finally have "rev (dropWhile is_space (ws1 @ s @ ws2)) = rev ws2 @ rev (dropWhile is_space s)"
    by simp
  moreover have "dropWhile is_space (rev ws2 @ rev (dropWhile is_space s))
      = dropWhile is_space (rev (dropWhile is_space s))"
    using assms(2) by (intro dropWhile_append2) (simp add: list_all_iff)
  ultimately show ?thesis by (simp add: trim_def)
qed

lemma trim_core:
  assumes "s \<noteq> []" "\<not> is_space (hd s)" "\<not> is_space (last s)"
  shows "trim s = s"
proof -
  have a: "dropWhile is_space s = s" using assms(1,2) by (cases s) auto
  have "rev s \<noteq> []" "\<not> is_space (hd (rev s))" using assms(1,3) by (simp_all add: hd_rev)
  then have "dropWhile is_space (rev s) = rev s" by (cases "rev s") auto
  with a show ?thesis by (simp add: trim_def)
qed


section \<open>Interactive mode\<close>

lemma trim_empty [simp]: "trim [] = []"
  by (simp add: trim_def)

lemma hd_askQuestion: "hd (askQuestion g ls) = Question ''You: ''"
  by (cases ls) (simp_all add: askQuestion.simps)

text \<open>
  C7. In interactive mode an empty input line makes no generation call: the line only
  leads to the next question, so the session is awaiting input again and its generation
  calls are those of the lines that follow.
\<close>

theorem interactive_empty_input:
  "askQuestion g ('''' # rest) = Question ''You: '' # askQuestion g rest
   \<and> gen_calls (askQuestion g ('''' # rest)) = gen_calls (askQuestion g rest)
   \<and> hd (askQuestion g rest) = Question ''You: ''"
  by (simp add: hd_askQuestion askQuestion.simps)

theorem interactive_empty_input_witness:
  "askQuestion echo_generator ['''', ''quit''] =
     [Question ''You: '', Question ''You: '', ConsoleLog ([newline] @ ''Goodbye!'' @ [newline]), RlClose]
   \<and> gen_calls (askQuestion echo_generator ['''', ''quit'']) = []"
proof -
  have q: "askQuestion echo_generator [''quit''] =
      [Question ''You: '', ConsoleLog ([newline] @ ''Goodbye!'' @ [newline]), RlClose]"
    by code_simp
  show ?thesis
    using interactive_empty_input [of echo_generator "[''quit'']"] by (simp add: q)
qed

lemma keyword_trim:
  assumes k: "toLowerCase core \<in> set [''quit'', ''exit'', ''q'']"
  shows "trim core = core"
proof (rule trim_core)
  from k show ne: "core \<noteq> []" by (auto simp: toLowerCase_def)
  from k have "hd (toLowerCase core) \<in> {CHR ''q'', CHR ''e''}"
    and "last (toLowerCase core) \<in> {CHR ''t'', CHR ''q''}" by auto
  with ne have h: "lower_char (hd core) \<in> {CHR ''q'', CHR ''e''}"
    and l: "lower_char (last core) \<in> {CHR ''t'', CHR ''q''}"
    by (simp_all add: toLowerCase_def hd_map last_map)
  from h have "\<not> is_space (lower_char (hd core))" by (auto simp: is_space_def)
  then show "\<not> is_space (hd core)" using is_space_lower [of "hd core"] by auto
  from l have "\<not> is_space (lower_char (last core))" by (auto simp: is_space_def)
  then show "\<not> is_space (last core)" using is_space_lower [of "last core"] by auto
qed

lemma askQuestion_exit:
  assumes "toLowerCase (trim input) \<in> set [''quit'', ''exit'', ''q'']"
  shows "askQuestion g (input # rest) = goodbye"
proof -
  from assms have "trim input \<noteq> []" by (auto simp: toLowerCase_def)
  with assms show ?thesis by (simp add: askQuestion.simps goodbye_def)
qed

lemma askQuestion_no_exit:
  assumes "toLowerCase (trim input) \<notin> set [''quit'', ''exit'', ''q'']"
  shows "askQuestion g (input # rest) \<noteq> goodbye"
proof (cases "trim input = []")
  case True
  have "askQuestion g rest \<noteq> [ConsoleLog ([newline] @ ''Goodbye!'' @ [newline]), RlClose]"
    using hd_askQuestion [of g rest] by auto
  with True show ?thesis by (simp add: askQuestion.simps goodbye_def)
next
  case False
  with assms show ?thesis
    by (simp add: askQuestion.simps goodbye_def newline_def Let_def)
qed

lemma askQuestion_prompt:
  assumes "trim input \<noteq> []"
    and "toLowerCase (trim input) \<notin> set [''quit'', ''exit'', ''q'', ''clear'']"
  shows "askQuestion g (input # rest) =
     [Question ''You: '', ConsoleLog ''''] @ fst (generateResponse g (trim input) True) @
     (case snd (generateResponse g (trim input) True) of
        Inl error \<Rightarrow> [ConsoleError (''Error: '' @ message error)] | Inr response \<Rightarrow> []) @
     askQuestion g rest"
  using assms
  by (simp add: askQuestion.simps Let_def split: prod.splits sum.splits)

text \<open>
  C9. The interactive loop compares the trimmed, lower-cased line with the exit keywords
  \<open>quit\<close>, \<open>exit\<close> and \<open>q\<close>: the session says goodbye and closes exactly when that text is one
  of the three. So a keyword in any letter case with white space around it, \<open>q\<close> included,
  ends the session, and the lines after it are not read.
\<close>

theorem exit_keyword_matching:
  assumes "list_all is_space ws1" and "list_all is_space ws2"
    and "toLowerCase core \<in> set [''quit'', ''exit'', ''q'']"
  shows "(askQuestion g (input # rest) = goodbye)
           = (toLowerCase (trim input) \<in> set [''quit'', ''exit'', ''q''])
         \<and> askQuestion g ((ws1 @ core @ ws2) # rest) = goodbye"
proof -
  have "trim (ws1 @ core @ ws2) = core"
    using assms by (simp add: trim_pad keyword_trim)
  with assms(3) have "askQuestion g ((ws1 @ core @ ws2) # rest) = goodbye"
    by (intro askQuestion_exit) simp
  moreover have "(askQuestion g (input # rest) = goodbye)
           = (toLowerCase (trim input) \<in> set [''quit'', ''exit'', ''q''])"
    using askQuestion_exit [of input g rest] askQuestion_no_exit [of input g rest] by blast
  ultimately show ?thesis by simp
qed

theorem exit_keyword_matching_witness:
  "list_all is_space [CHR 0x20, CHR 0x09] \<and> list_all is_space [CHR 0x0D, CHR 0x0A]
   \<and> toLowerCase ''Q'' \<in> set [''quit'', ''exit'', ''q'']
   \<and> askQuestion echo_generator ([CHR 0x20, CHR 0x09, CHR ''Q'', CHR 0x0D, CHR 0x0A] # [''next'']) =
       [Question ''You: '', ConsoleLog ([newline] @ ''Goodbye!'' @ [newline]), RlClose]"
proof -
  have a: "list_all is_space [CHR 0x20, CHR 0x09]" by code_simp
  have b: "list_all is_space [CHR 0x0D, CHR 0x0A]" by code_simp
  have c: "toLowerCase ''Q'' \<in> set [''quit'', ''exit'', ''q'']" by code_simp
  show ?thesis
    using a b c exit_keyword_matching [OF a b c, of echo_generator "''Q''" "[''next'']"]
    by (simp add: goodbye_def)
qed


section \<open>The entry point\<close>

lemma initializePipeline_Inr:
  assumes "snd (initializePipeline pl) = Inr g"
  shows "initializePipeline pl = (fst (initializePipeline pl), Inr g)"
  using assms by (cases "initializePipeline pl") simp

lemma initializePipeline_Inl:
  assumes "snd (initializePipeline pl) = Inl e"
  shows "initializePipeline pl = (fst (initializePipeline pl), Inl e)"
  using assms by (cases "initializePipeline pl") simp

lemma ready_pipeline_loads [simp]:
  "snd (initializePipeline (ready_pipeline g)) = Inr g"
  by (simp add: snd_initializePipeline ready_pipeline_def)

lemma main_interactive:
  assumes "snd (initializePipeline pl) = Inr g"
  shows "main pl [] lines = (displayBanner @ fst (initializePipeline pl) @ runInteractiveMode g lines, 0)"
  by (subst main_def, subst initializePipeline_Inr [OF assms]) simp

lemma main_prompt:
  assumes "snd (initializePipeline pl) = Inr g" and "rest \<noteq> []"
  shows "main pl (''--prompt'' # rest) lines =
     (case runSinglePrompt g (join '' '' rest) of
        (t, Inl error) \<Rightarrow> (displayBanner @ fst (initializePipeline pl) @ t @ fatal error, 1)
      | (t, Inr u) \<Rightarrow> (displayBanner @ fst (initializePipeline pl) @ t, 0))"
proof -
  from assms(2) have "\<not> length (''--prompt'' # rest) < 2" by (cases rest) simp_all
  then show ?thesis
    by (subst main_def, subst initializePipeline_Inr [OF assms(1)]) simp
qed

lemma gen_calls_runSinglePrompt:
  "gen_calls (fst (runSinglePrompt g p)) = [(single_turn p, stream_opts)]"
  using gen_calls_generateResponse [of g p]
  by (auto simp: runSinglePrompt_def Let_def split: prod.splits sum.splits)

lemma join_concat:
  "ws \<noteq> [] \<Longrightarrow> join sep ws = hd ws @ concat (map (\<lambda>w. sep @ w) (tl ws))"
  by (induction sep ws rule: join.induct) simp_all

text \<open>
  C5. In interactive mode, once the model is loaded, the lines \<open>hello\<close> and \<open>quit\<close> make
  exactly one generation call, for the single user turn \<open>hello\<close>; the trace ends with the
  goodbye of \<open>quit\<close>, after which nothing is generated, and the exit status is 0. Lines that
  would follow \<open>quit\<close> are not read.
\<close>

theorem interactive_hello_quit:
  assumes "snd (initializePipeline pl) = Inr g"
  shows "gen_calls (fst (main pl [] (''hello'' # ''quit'' # later))) = [(single_turn ''hello'', stream_opts)]
       \<and> snd (main pl [] (''hello'' # ''quit'' # later)) = 0
       \<and> (\<exists>t. fst (main pl [] (''hello'' # ''quit'' # later)) = t @ goodbye
              \<and> gen_calls t = [(single_turn ''hello'', stream_opts)])"
proof -
  let ?r = "generateResponse g ''hello'' True"
  let ?t = "displayBanner @ fst (initializePipeline pl) @
     [ConsoleLog (repeat ''='' 70),
      ConsoleLog ''INTERACTIVE MODE'',
      ConsoleLog (repeat ''='' 70),
      ConsoleLog ''Commands:'',
      ConsoleLog ''  - Type your prompt and press Enter'',
      ConsoleLog ''  - Type 'quit' or 'exit' to exit'',
      ConsoleLog ''  - Type 'clear' to clear screen'',
      ConsoleLog (repeat ''='' 70 @ [newline])] @
     [Question ''You: '', ConsoleLog ''''] @ fst ?r @
     (case snd ?r of Inl error \<Rightarrow> [ConsoleError (''Error: '' @ message error)] | Inr response \<Rightarrow> [])"
  have h: "trim ''hello'' = ''hello''" by code_simp
  have k: "toLowerCase ''hello'' \<notin> set [''quit'', ''exit'', ''q'', ''clear'']" by code_simp
  have q: "toLowerCase (trim ''quit'') \<in> set [''quit'', ''exit'', ''q'']" by code_simp
  have "askQuestion g (''hello'' # ''quit'' # later) =
     [Question ''You: '', ConsoleLog ''''] @ fst ?r @
     (case snd ?r of Inl error \<Rightarrow> [ConsoleError (''Error: '' @ message error)] | Inr response \<Rightarrow> []) @
     goodbye"
    using askQuestion_prompt [of "''hello''" g "''quit'' # later"] h k
      askQuestion_exit [OF q, of g later] by simp
  then have m: "main pl [] (''hello'' # ''quit'' # later) = (?t @ goodbye, 0)"
    by (simp add: main_interactive [OF assms] runInteractiveMode_def)
  have c: "gen_calls ?t = [(single_turn ''hello'', stream_opts)]"
    by (simp add: gen_calls_generateResponse split: sum.splits)
  have g: "gen_calls goodbye = []" by (simp add: goodbye_def)
  from m c g show ?thesis by (simp del: append_assoc)
qed

theorem interactive_hello_quit_witness:
  "snd (initializePipeline (ready_pipeline echo_generator)) = Inr echo_generator
   \<and> gen_calls (fst (main (ready_pipeline echo_generator) [] [''hello'', ''quit''])) =
       [([\<lparr> role = ''user'', content = ''hello'' \<rparr>],
         \<lparr> max_new_tokens = 512, do_sample = False, streamer = Some (TextStreamer True) \<rparr>)]
   \<and> snd (main (ready_pipeline echo_generator) [] [''hello'', ''quit'']) = 0"
proof -
  have h: "snd (initializePipeline (ready_pipeline echo_generator)) = Inr echo_generator"
    by simp
  show ?thesis
    using h interactive_hello_quit [OF h, of "[]"]
    by (simp add: single_turn_def stream_opts_def)
qed

text \<open>
  C10. In single-prompt mode, once the model is loaded, the one or more arguments after
  \<open>--prompt\<close> are joined with single spaces (the first argument, then each further one after
  a space), and the program makes one generation call whose conversation is the single
  user turn with that joined text.
\<close>

theorem single_prompt_joined:
  assumes "snd (initializePipeline pl) = Inr g" and "rest \<noteq> []"
  shows "gen_calls (fst (main pl (''--prompt'' # rest) lines)) =
           [([\<lparr> role = ''user'', content = join '' '' rest \<rparr>], stream_opts)]
       \<and> join '' '' rest = hd rest @ concat (map (\<lambda>w. '' '' @ w) (tl rest))"
proof -
  obtain t r where p: "runSinglePrompt g (join '' '' rest) = (t, r)"
    by (cases "runSinglePrompt g (join '' '' rest)")
  with gen_calls_runSinglePrompt [of g "join '' '' rest"]
  have "gen_calls t = [(single_turn (join '' '' rest), stream_opts)]" by simp
  then have "gen_calls (fst (main pl (''--prompt'' # rest) lines)) =
           [([\<lparr> role = ''user'', content = join '' '' rest \<rparr>], stream_opts)]"
    by (cases r) (simp_all add: main_prompt [OF assms] p single_turn_def)
  with join_concat [OF assms(2)] show ?thesis by blast
qed

theorem single_prompt_joined_witness:
  "snd (initializePipeline (ready_pipeline echo_generator)) = Inr echo_generator
   \<and> [''What'', ''is'', ''AI?''] \<noteq> []
   \<and> gen_calls (fst (main (ready_pipeline echo_generator) [''--prompt'', ''What'', ''is'', ''AI?''] [])) =
       [([\<lparr> role = ''user'', content = ''What is AI?'' \<rparr>],
         \<lparr> max_new_tokens = 512, do_sample = False, streamer = Some (TextStreamer True) \<rparr>)]"
proof -
  have h: "snd (initializePipeline (ready_pipeline echo_generator)) = Inr echo_generator"
    by simp
  have n: "[''What'', ''is'', ''AI?''] \<noteq> []" by simp
  show ?thesis
    using h single_prompt_joined [OF h n, of "[]"]
    by (simp add: stream_opts_def)
qed


section \<open>Demo mode\<close>

lemma generateResponse_Inr:
  assumes "\<not> isl (snd (generateResponse g p s))"
  obtains t r where "generateResponse g p s = (t, Inr r)"
  using assms by (cases "generateResponse g p s"; cases "snd (generateResponse g p s)") auto

lemma demo_loop_ok:
  assumes "\<forall>p\<in>set ps. \<not> isl (snd (generateResponse g p True))"
  shows "gen_calls (fst (demo_loop g n i ps)) = map (\<lambda>p. (single_turn p, stream_opts)) ps
       \<and> snd (demo_loop g n i ps) = Inr ()"
  using assms
proof (induction ps arbitrary: i)
  case Nil
  then show ?case by simp
next
  case (Cons p ps)
  from Cons.prems have "\<not> isl (snd (generateResponse g p True))" by simp
  then obtain t r where r: "generateResponse g p True = (t, Inr r)"
    by (rule generateResponse_Inr)
  with gen_calls_generateResponse [of g p] have t: "gen_calls t = [(single_turn p, stream_opts)]"
    by simp
  from Cons have ih: "gen_calls (fst (demo_loop g n (i + 1) ps)) = map (\<lambda>p. (single_turn p, stream_opts)) ps"
      "snd (demo_loop g n (i + 1) ps) = Inr ()"
    by simp_all
  show ?case
    using t ih by (auto simp: r Let_def split: prod.splits)
qed

lemma demo_loop_fail:
  assumes "\<forall>q\<in>set ps1. \<not> isl (snd (generateResponse g q True))"
    and "snd (generateResponse g p True) = Inl e"
  shows "gen_calls (fst (demo_loop g n i (ps1 @ p # ps2))) = map (\<lambda>p. (single_turn p, stream_opts)) (ps1 @ [p])
       \<and> snd (demo_loop g n i (ps1 @ p # ps2)) = Inl e"
  using assms(1)
proof (induction ps1 arbitrary: i)
  case Nil
  obtain t where r: "generateResponse g p True = (t, Inl e)"
    using assms(2) by (cases "generateResponse g p True") simp
  with gen_calls_generateResponse [of g p] have t: "gen_calls t = [(single_turn p, stream_opts)]"
    by simp
  then show ?case by (simp add: r Let_def)
next
  case (Cons q ps1)
  from Cons.prems have "\<not> isl (snd (generateResponse g q True))" by simp
  then obtain t r where r: "generateResponse g q True = (t, Inr r)"
    by (rule generateResponse_Inr)
  with gen_calls_generateResponse [of g q] have t: "gen_calls t = [(single_turn q, stream_opts)]"
    by simp
  from Cons have ih: "gen_calls (fst (demo_loop g n (i + 1) (ps1 @ p # ps2))) = map (\<lambda>p. (single_turn p, stream_opts)) (ps1 @ [p])"
      "snd (demo_loop g n (i + 1) (ps1 @ p # ps2)) = Inl e"
    by simp_all
  show ?case
    using t ih by (auto simp: r Let_def split: prod.splits)
qed

lemma gen_calls_runDemoMode:
  "gen_calls (fst (runDemoMode g)) = gen_calls (fst (demo_loop g (length demos) 0 demos))"
  by (simp add: runDemoMode_def Let_def split: prod.splits)

lemma snd_runDemoMode:
  "snd (runDemoMode g) = snd (demo_loop g (length demos) 0 demos)"
  by (simp add: runDemoMode_def Let_def split: prod.splits)

lemma main_demo:
  assumes "snd (initializePipeline pl) = Inr g"
  shows "main pl (''--demo'' # as) lines =
     (case runDemoMode g of
        (t, Inl error) \<Rightarrow> (displayBanner @ fst (initializePipeline pl) @ t @ fatal error, 1)
      | (t, Inr u) \<Rightarrow> (displayBanner @ fst (initializePipeline pl) @ t, 0))"
  by (subst main_def, subst initializePipeline_Inr [OF assms]) simp

lemma main_demo_calls:
  assumes "snd (initializePipeline pl) = Inr g"
  shows "gen_calls (fst (main pl (''--demo'' # as) lines)) = gen_calls (fst (runDemoMode g))"
    and "snd (main pl (''--demo'' # as) lines) = (if isl (snd (runDemoMode g)) then 1 else 0)"
  by (cases "runDemoMode g"; cases "snd (runDemoMode g)"; simp add: main_demo [OF assms])+

lemma echo_generator_ok: "snd (generateResponse echo_generator p True) = Inr ''ok''"
  by (simp add: generateResponse_def echo_generator_def generated_content_def Let_def)

lemma upto_first_failure_ok:
  "\<forall>p\<in>set ps. \<not> isl (snd (generateResponse g p True)) \<Longrightarrow> upto_first_failure g ps = ps"
  by (induction ps) simp_all

lemma upto_first_failure_fail:
  assumes "\<forall>q\<in>set passed. \<not> isl (snd (generateResponse g q True))"
    and "isl (snd (generateResponse g p True))"
  shows "upto_first_failure g (passed @ p # pending) = passed @ [p]"
  using assms by (induction passed) simp_all

lemma demo_loop_calls:
  "gen_calls (fst (demo_loop g n i ps)) =
     map (\<lambda>p. (single_turn p, stream_opts)) (upto_first_failure g ps)
   \<and> isl (snd (demo_loop g n i ps)) = (\<not> list_all (\<lambda>p. \<not> isl (snd (generateResponse g p True))) ps)"
proof (induction ps arbitrary: i)
  case Nil
  show ?case by simp
next
  case (Cons p ps)
  obtain t x where r: "generateResponse g p True = (t, x)"
    by (cases "generateResponse g p True")
  with gen_calls_generateResponse [of g p] have t: "gen_calls t = [(single_turn p, stream_opts)]"
    by simp
  obtain t' x' where r': "demo_loop g n (Suc i) ps = (t', x')"
    by (cases "demo_loop g n (Suc i) ps")
  with Cons [of "Suc i"] have ih: "gen_calls t' = map (\<lambda>p. (single_turn p, stream_opts)) (upto_first_failure g ps)"
    "isl x' = (\<not> list_all (\<lambda>p. \<not> isl (snd (generateResponse g p True))) ps)"
    by simp_all
  show ?case
    using t ih by (cases x) (simp_all add: r r' Let_def)
qed

text \<open>
  C6, amended. The loop of demo mode, on any list of prompts, makes its generation calls
  one per prompt in list order, each with a conversation that holds only that prompt as its
  one user turn (nothing of an earlier prompt is passed on), up to and including the first
  prompt whose generation fails; the prompts after it get no call. When no generation
  fails these are exactly as many calls as there are prompts. For the built-in list, once
  the model is loaded, these are the generation calls of the whole run, which ends with
  exit status 0 when no generation fails and with 1 otherwise.
\<close>

theorem demo_mode_calls:
  "gen_calls (fst (demo_loop g n i ps)) =
     map (\<lambda>p. ([\<lparr> role = ''user'', content = p \<rparr>], stream_opts)) (upto_first_failure g ps)
   \<and> ((\<forall>p\<in>set ps. \<not> isl (snd (generateResponse g p True))) \<longrightarrow>
         upto_first_failure g ps = ps
         \<and> length (gen_calls (fst (demo_loop g n i ps))) = length ps
         \<and> snd (demo_loop g n i ps) = Inr ())
   \<and> ((\<forall>q\<in>set passed. \<not> isl (snd (generateResponse g q True)))
        \<and> isl (snd (generateResponse g p True)) \<longrightarrow>
         upto_first_failure g (passed @ p # pending) = passed @ [p])
   \<and> (snd (initializePipeline pl) = Inr g \<longrightarrow>
         gen_calls (fst (main pl (''--demo'' # as) lines)) =
           map (\<lambda>p. ([\<lparr> role = ''user'', content = p \<rparr>], stream_opts)) (upto_first_failure g demos)
         \<and> snd (main pl (''--demo'' # as) lines) =
             (if list_all (\<lambda>p. \<not> isl (snd (generateResponse g p True))) demos then 0 else 1))"
proof -
  have a: "gen_calls (fst (demo_loop g n i ps)) =
     map (\<lambda>p. ([\<lparr> role = ''user'', content = p \<rparr>], stream_opts)) (upto_first_failure g ps)"
    using demo_loop_calls [of g n i ps] by (simp add: single_turn_def)
  have b: "upto_first_failure g ps = ps
         \<and> length (gen_calls (fst (demo_loop g n i ps))) = length ps
         \<and> snd (demo_loop g n i ps) = Inr ()"
    if ok: "\<forall>p\<in>set ps. \<not> isl (snd (generateResponse g p True))"
    using a upto_first_failure_ok [OF ok] demo_loop_ok [OF ok, of n i] by simp
  have c: "upto_first_failure g (passed @ p # pending) = passed @ [p]"
    if "\<forall>q\<in>set passed. \<not> isl (snd (generateResponse g q True))"
      and "isl (snd (generateResponse g p True))"
    using that by (rule upto_first_failure_fail)
  have d: "gen_calls (fst (main pl (''--demo'' # as) lines)) =
           map (\<lambda>p. ([\<lparr> role = ''user'', content = p \<rparr>], stream_opts)) (upto_first_failure g demos)
         \<and> snd (main pl (''--demo'' # as) lines) =
             (if list_all (\<lambda>p. \<not> isl (snd (generateResponse g p True))) demos then 0 else 1)"
    if l: "snd (initializePipeline pl) = Inr g"
    using demo_loop_calls [of g "length demos" 0 demos]
    by (simp add: main_demo_calls [OF l] gen_calls_runDemoMode snd_runDemoMode single_turn_def)
  from a b c d show ?thesis by blast
qed

lemma capital_failing_generator_results:
  "snd (generateResponse capital_failing_generator ''Solve the equation: x^2 - 3x + 2 = 0'' True) = Inr ''ok''"
  "snd (generateResponse capital_failing_generator ''What is the capital of Indonesia?'' True) =
     Inl (JsError ''out of memory'')"
  by (simp_all add: generateResponse_def capital_failing_generator_def generated_content_def Let_def)

text \<open>
  C6, as stated, fails: with a generator that throws on the second demo prompt, the run
  over the three demo prompts makes two generation calls, not three.
\<close>

theorem demo_mode_calls_counterexample:
  "gen_calls (fst (main (ready_pipeline capital_failing_generator) [''--demo''] [])) =
     [([\<lparr> role = ''user'', content = ''Solve the equation: x^2 - 3x + 2 = 0'' \<rparr>], stream_opts),
      ([\<lparr> role = ''user'', content = ''What is the capital of Indonesia?'' \<rparr>], stream_opts)]
   \<and> length demos = 3
   \<and> snd (main (ready_pipeline capital_failing_generator) [''--demo''] []) = 1"
proof -
  have l: "snd (initializePipeline (ready_pipeline capital_failing_generator)) = Inr capital_failing_generator"
    by simp
  have u: "upto_first_failure capital_failing_generator demos =
      [''Solve the equation: x^2 - 3x + 2 = 0'', ''What is the capital of Indonesia?'']"
    by (simp add: demos_def capital_failing_generator_results)
  have n: "\<not> list_all (\<lambda>p. \<not> isl (snd (generateResponse capital_failing_generator p True))) demos"
    by (simp add: demos_def capital_failing_generator_results)
  show ?thesis
    using demo_loop_calls [of capital_failing_generator "length demos" 0 demos] n
    by (simp add: main_demo_calls [OF l] gen_calls_runDemoMode snd_runDemoMode u single_turn_def)
       (simp add: demos_def)
qed

theorem demo_mode_calls_witness:
  "list_all (\<lambda>p. snd (generateResponse echo_generator p True) = Inr ''ok'') demos
   \<and> gen_calls (fst (main (ready_pipeline echo_generator) [''--demo''] [])) =
       [([\<lparr> role = ''user'', content = ''Solve the equation: x^2 - 3x + 2 = 0'' \<rparr>], stream_opts),
        ([\<lparr> role = ''user'', content = ''What is the capital of Indonesia?'' \<rparr>], stream_opts),
        ([\<lparr> role = ''user'', content = ''Explain quantum computing in simple terms'' \<rparr>], stream_opts)]
   \<and> snd (main (ready_pipeline echo_generator) [''--demo''] []) = 0
   \<and> upto_first_failure capital_failing_generator demos =
       [''Solve the equation: x^2 - 3x + 2 = 0'', ''What is the capital of Indonesia?'']"
proof -
  let ?call = "\<lambda>p. ([\<lparr> role = ''user'', content = p \<rparr>], stream_opts)"
  have l: "snd (initializePipeline (ready_pipeline echo_generator)) = Inr echo_generator"
    by simp
  have ok: "\<forall>p\<in>set demos. \<not> isl (snd (generateResponse echo_generator p True))"
    by (simp add: echo_generator_ok)
  then have la: "list_all (\<lambda>p. \<not> isl (snd (generateResponse echo_generator p True))) demos"
    by (simp add: list_all_iff)
  note t = demo_mode_calls [where g = echo_generator and ps = demos
        and pl = "ready_pipeline echo_generator" and as = "[]" and lines = "[]"]
  from t ok have u: "upto_first_failure echo_generator demos = demos" by blast
  from t l have "gen_calls (fst (main (ready_pipeline echo_generator) [''--demo''] [])) =
      map ?call (upto_first_failure echo_generator demos)"
    and "snd (main (ready_pipeline echo_generator) [''--demo''] []) =
      (if list_all (\<lambda>p. \<not> isl (snd (generateResponse echo_generator p True))) demos then 0 else 1)"
    by blast+
  with u la have m: "gen_calls (fst (main (ready_pipeline echo_generator) [''--demo''] [])) = map ?call demos"
    and e: "snd (main (ready_pipeline echo_generator) [''--demo''] []) = 0"
    by simp_all
  have "upto_first_failure capital_failing_generator
      ([''Solve the equation: x^2 - 3x + 2 = 0''] @
       ''What is the capital of Indonesia?'' # [''Explain quantum computing in simple terms'']) =
      [''Solve the equation: x^2 - 3x + 2 = 0''] @ [''What is the capital of Indonesia?'']"
    using demo_mode_calls [where g = capital_failing_generator
        and passed = "[''Solve the equation: x^2 - 3x + 2 = 0'']"
        and p = "''What is the capital of Indonesia?''"
        and pending = "[''Explain quantum computing in simple terms'']"]
    by (simp add: capital_failing_generator_results)
  then have c: "upto_first_failure capital_failing_generator demos =
       [''Solve the equation: x^2 - 3x + 2 = 0'', ''What is the capital of Indonesia?'']"
    by (simp add: demos_def)
  have a: "list_all (\<lambda>p. snd (generateResponse echo_generator p True) = Inr ''ok'') demos"
    by (simp add: echo_generator_ok list_all_iff)
  from m have m': "gen_calls (fst (main (ready_pipeline echo_generator) [''--demo''] [])) =
       [?call ''Solve the equation: x^2 - 3x + 2 = 0'',
        ?call ''What is the capital of Indonesia?'',
        ?call ''Explain quantum computing in simple terms'']"
    by (simp add: demos_def)
  from a m' e c show ?thesis by simp
qed


section \<open>Errors of generation and of the load\<close>

lemma generateResponse_error_reported:
  assumes "snd (generateResponse g p True) = Inl e"
  shows "last (fst (generateResponse g p True)) = ConsoleError (''Error during generation: '' @ message e)"
  using assms
  by (auto simp: generateResponse_def Let_def split: sum.splits)

lemma main_load_failure:
  assumes "snd (initializePipeline pl) = Inl e"
  shows "main pl args lines = (displayBanner @ fst (initializePipeline pl) @ fatal e, 1)"
  by (subst main_def, subst initializePipeline_Inl [OF assms]) simp

lemma main_demo_fatal:
  assumes "snd (initializePipeline pl) = Inr g" and "snd (runDemoMode g) = Inl e"
  shows "main pl (''--demo'' # as) lines =
    (displayBanner @ fst (initializePipeline pl) @ fst (runDemoMode g) @ fatal e, 1)"
  using assms(2) by (cases "runDemoMode g") (simp add: main_demo [OF assms(1)])

lemma main_prompt_fatal:
  assumes "snd (initializePipeline pl) = Inr g" and "rest \<noteq> []"
    and "snd (generateResponse g (join '' '' rest) True) = Inl e"
  shows "main pl (''--prompt'' # rest) lines =
    (displayBanner @ fst (initializePipeline pl) @ fst (runSinglePrompt g (join '' '' rest)) @ fatal e, 1)"
  using assms(3)
  by (cases "generateResponse g (join '' '' rest) True")
     (simp add: main_prompt [OF assms(1,2)] runSinglePrompt_def Let_def)

text \<open>
  C3, amended. A generation error is always reported on the error console. In interactive
  mode it is caught: a second message follows, the next question is asked, and the process
  ends with exit status 0. In demo mode and in single-prompt mode it is not caught by the
  mode: the prompts after the failing one are not run, the fatal handler of \<open>main\<close> reports
  the error and the process ends with exit status 1. A failure of the initial load ends the
  process the same way, with exit status 1 and no generation call.
\<close>

theorem generation_error_semantics:
  assumes "snd (generateResponse g p True) = Inl e"
  shows "last (fst (generateResponse g p True)) = ConsoleError (''Error during generation: '' @ message e)
    \<and> (trim input = p \<longrightarrow> p \<noteq> [] \<longrightarrow> toLowerCase p \<notin> set [''quit'', ''exit'', ''q'', ''clear''] \<longrightarrow>
         askQuestion g (input # rest) =
           [Question ''You: '', ConsoleLog ''''] @ fst (generateResponse g p True) @
           [ConsoleError (''Error: '' @ message e)] @ askQuestion g rest)
    \<and> (snd (initializePipeline pl) = Inr g \<longrightarrow> snd (main pl [] lines) = 0)
    \<and> (snd (initializePipeline pl) = Inr g \<longrightarrow> demos = passed @ p # pending \<longrightarrow>
         (\<forall>q\<in>set passed. \<not> isl (snd (generateResponse g q True))) \<longrightarrow>
           snd (main pl (''--demo'' # as) lines) = 1
           \<and> gen_calls (fst (main pl (''--demo'' # as) lines)) =
               map (\<lambda>q. (single_turn q, stream_opts)) (passed @ [p])
           \<and> last (fst (main pl (''--demo'' # as) lines)) =
               ConsoleError ([newline] @ ''Fatal error: '' @ message e))
    \<and> (snd (initializePipeline pl) = Inr g \<longrightarrow> words \<noteq> [] \<longrightarrow> join '' '' words = p \<longrightarrow>
           snd (main pl (''--prompt'' # words) lines) = 1
           \<and> last (fst (main pl (''--prompt'' # words) lines)) =
               ConsoleError ([newline] @ ''Fatal error: '' @ message e))
    \<and> (snd (initializePipeline pl) = Inl e' \<longrightarrow>
           snd (main pl args lines) = 1 \<and> gen_calls (fst (main pl args lines)) = []
           \<and> last (fst (main pl args lines)) = ConsoleError ([newline] @ ''Fatal error: '' @ message e'))"
proof -
  have c1: "last (fst (generateResponse g p True)) = ConsoleError (''Error during generation: '' @ message e)"
    by (rule generateResponse_error_reported [OF assms])
  have c2: "askQuestion g (input # rest) =
           [Question ''You: '', ConsoleLog ''''] @ fst (generateResponse g p True) @
           [ConsoleError (''Error: '' @ message e)] @ askQuestion g rest"
    if "trim input = p" "p \<noteq> []" "toLowerCase p \<notin> set [''quit'', ''exit'', ''q'', ''clear'']"
    using askQuestion_prompt [of input g rest] that assms by simp
  have c3: "snd (main pl [] lines) = 0" if "snd (initializePipeline pl) = Inr g"
    by (simp add: main_interactive [OF that])
  have c4: "snd (main pl (''--demo'' # as) lines) = 1
           \<and> gen_calls (fst (main pl (''--demo'' # as) lines)) =
               map (\<lambda>q. (single_turn q, stream_opts)) (passed @ [p])
           \<and> last (fst (main pl (''--demo'' # as) lines)) =
               ConsoleError ([newline] @ ''Fatal error: '' @ message e)"
    if l: "snd (initializePipeline pl) = Inr g" and d: "demos = passed @ p # pending"
      and ok: "\<forall>q\<in>set passed. \<not> isl (snd (generateResponse g q True))"
  proof -
    from demo_loop_fail [OF ok assms, of "length demos" 0 pending] d
    have f: "gen_calls (fst (runDemoMode g)) = map (\<lambda>q. (single_turn q, stream_opts)) (passed @ [p])"
      and r: "snd (runDemoMode g) = Inl e"
      by (simp_all add: gen_calls_runDemoMode snd_runDemoMode)
    show ?thesis
      using f by (simp add: main_demo_fatal [OF l r] fatal_def)
  qed
  have c5: "snd (main pl (''--prompt'' # words) lines) = 1
           \<and> last (fst (main pl (''--prompt'' # words) lines)) =
               ConsoleError ([newline] @ ''Fatal error: '' @ message e)"
    if l: "snd (initializePipeline pl) = Inr g" and w: "words \<noteq> []" and j: "join '' '' words = p"
  proof -
    from assms j have "snd (generateResponse g (join '' '' words) True) = Inl e" by simp
    from main_prompt_fatal [OF l w this] show ?thesis by (simp add: fatal_def)
  qed
  have c6: "snd (main pl args lines) = 1 \<and> gen_calls (fst (main pl args lines)) = []
           \<and> last (fst (main pl args lines)) = ConsoleError ([newline] @ ''Fatal error: '' @ message e')"
    if "snd (initializePipeline pl) = Inl e'"
    by (simp add: main_load_failure [OF that] fatal_def)
  from c1 c2 c3 c4 c5 c6 show ?thesis by blast
qed

lemma failing_generator_fails:
  "snd (generateResponse failing_generator p True) = Inl (JsError ''out of memory'')"
  by (simp add: generateResponse_def failing_generator_def Let_def)

lemma fst_failing_generator:
  "fst (generateResponse failing_generator p True) =
     [ConsoleLog ''Assistant: '', GeneratorCall (single_turn p) stream_opts,
      ConsoleError ''Error during generation: out of memory'']"
  by (simp add: generateResponse_def failing_generator_def Let_def single_turn_def stream_opts_def)

text \<open>
  C3, as stated, fails in demo mode: with a generator that throws, the run of the three
  demo prompts makes one generation call and the process ends with exit status 1.
\<close>

theorem generation_error_counterexample:
  "snd (main (ready_pipeline failing_generator) [''--demo''] []) = 1
   \<and> length (gen_calls (fst (main (ready_pipeline failing_generator) [''--demo''] []))) = 1
   \<and> length demos = 3"
proof -
  have l: "snd (initializePipeline (ready_pipeline failing_generator)) = Inr failing_generator"
    by simp
  have d: "demos = [] @ hd demos # tl demos" by (simp add: demos_def)
  have "gen_calls (fst (demo_loop failing_generator (length demos) 0 ([] @ hd demos # tl demos))) =
          map (\<lambda>p. (single_turn p, stream_opts)) ([] @ [hd demos])
        \<and> snd (demo_loop failing_generator (length demos) 0 ([] @ hd demos # tl demos)) =
          Inl (JsError ''out of memory'')"
    by (rule demo_loop_fail) (simp_all add: failing_generator_fails)
  with d have "length (gen_calls (fst (runDemoMode failing_generator))) = 1"
    and "isl (snd (runDemoMode failing_generator))"
    by (simp_all add: gen_calls_runDemoMode snd_runDemoMode)
  then show ?thesis
    by (simp add: main_demo_calls [OF l] demos_def)
qed

theorem generation_error_semantics_witness:
  "snd (generateResponse failing_generator ''Solve the equation: x^2 - 3x + 2 = 0'' True) =
     Inl (JsError ''out of memory'')
   \<and> askQuestion failing_generator [''  Solve the equation: x^2 - 3x + 2 = 0 ''] =
       [Question ''You: '', ConsoleLog '''', ConsoleLog ''Assistant: '',
        GeneratorCall (single_turn ''Solve the equation: x^2 - 3x + 2 = 0'') stream_opts,
        ConsoleError ''Error during generation: out of memory'',
        ConsoleError ''Error: out of memory'', Question ''You: '']
   \<and> snd (main (ready_pipeline failing_generator) [] [''  Solve the equation: x^2 - 3x + 2 = 0 '']) = 0
   \<and> snd (main (ready_pipeline failing_generator) [''--demo''] [''  Solve the equation: x^2 - 3x + 2 = 0 '']) = 1
   \<and> gen_calls (fst (main (ready_pipeline failing_generator) [''--demo''] [''  Solve the equation: x^2 - 3x + 2 = 0 ''])) =
       [(single_turn ''Solve the equation: x^2 - 3x + 2 = 0'', stream_opts)]
   \<and> snd (main (ready_pipeline failing_generator) [''--prompt'', ''Solve'', ''the'', ''equation:'', ''x^2'', ''-'', ''3x'', ''+'', ''2'', ''='', ''0'']
         [''  Solve the equation: x^2 - 3x + 2 = 0 '']) = 1
   \<and> snd (main never_loading_pipeline [''--demo''] []) = 1"
proof -
  let ?p = "''Solve the equation: x^2 - 3x + 2 = 0''"
  have h: "snd (generateResponse failing_generator ?p True) = Inl (JsError ''out of memory'')"
    by (rule failing_generator_fails)
  have t: "trim ''  Solve the equation: x^2 - 3x + 2 = 0 '' = ?p" by code_simp
  have k: "toLowerCase ?p \<notin> set [''quit'', ''exit'', ''q'', ''clear'']" by code_simp
  have l: "snd (initializePipeline (ready_pipeline failing_generator)) = Inr failing_generator"
    by simp
  have d: "demos = [] @ ?p # tl demos" by (simp add: demos_def)
  have j: "join '' '' [''Solve'', ''the'', ''equation:'', ''x^2'', ''-'', ''3x'', ''+'', ''2'', ''='', ''0''] = ?p"
    by simp
  have n: "snd (initializePipeline never_loading_pipeline) = Inl (JsError ''cannot load q4f16'')"
    by (simp add: snd_initializePipeline never_loading_pipeline_def CONFIG_def)
  show ?thesis
    using h t k l d j n
      generation_error_semantics [OF h, where input = "''  Solve the equation: x^2 - 3x + 2 = 0 ''"
        and rest = "[]" and pl = "ready_pipeline failing_generator"
        and lines = "[''  Solve the equation: x^2 - 3x + 2 = 0 '']"
        and passed = "[]" and pending = "tl demos" and as = "[]"
        and words = "[''Solve'', ''the'', ''equation:'', ''x^2'', ''-'', ''3x'', ''+'', ''2'', ''='', ''0'']"]
      generation_error_semantics [OF h, where pl = never_loading_pipeline
        and e' = "JsError ''cannot load q4f16''" and args = "[''--demo'']" and lines = "[]"]
    by (simp add: fst_failing_generator askQuestion.simps)
qed


section \<open>Usage errors and the loader\<close>

lemma main_prompt_missing:
  "main pl [''--prompt''] lines =
     (case snd (initializePipeline pl) of
        Inl error \<Rightarrow> (displayBanner @ fst (initializePipeline pl) @ fatal error, 1)
      | Inr generator \<Rightarrow>
          (displayBanner @ fst (initializePipeline pl) @
           [ConsoleError ''Error: --prompt requires a prompt argument''] @ usage, 1))"
  by (cases "initializePipeline pl"; cases "snd (initializePipeline pl)") (simp_all add: main_def)

text \<open>
  C2, as stated, fails: with \<open>--prompt\<close> and no text the model load is attempted before the
  arguments are looked at.
\<close>

theorem prompt_without_text_counterexample:
  "load_attempts (fst (main (ready_pipeline echo_generator) [''--prompt''] [])) =
     [(''text-generation'', ''onnx-community/DeepSeek-R1-Distill-Qwen-1.5B-ONNX'', ''q4f16'')]"
  by (simp add: main_prompt_missing load_attempts_initializePipeline CONFIG_def)

text \<open>
  C2, amended. With \<open>--prompt\<close> as the only argument the program attempts the model load
  once, makes no generation call and ends with exit status 1. When the load succeeds the
  trace ends with the usage error and the usage text; when the load fails it ends with the
  fatal error report.
\<close>

theorem prompt_without_text:
  "load_attempts (fst (main pl [''--prompt''] lines)) =
     [(''text-generation'', model CONFIG, dtype CONFIG)]
   \<and> gen_calls (fst (main pl [''--prompt''] lines)) = []
   \<and> snd (main pl [''--prompt''] lines) = 1
   \<and> (\<forall>g. snd (initializePipeline pl) = Inr g \<longrightarrow>
         fst (main pl [''--prompt''] lines) =
           displayBanner @ fst (initializePipeline pl) @
           [ConsoleError ''Error: --prompt requires a prompt argument''] @ usage)
   \<and> (\<forall>e. snd (initializePipeline pl) = Inl e \<longrightarrow>
         fst (main pl [''--prompt''] lines) =
           displayBanner @ fst (initializePipeline pl) @ fatal e)"
  by (cases "snd (initializePipeline pl)")
     (simp_all add: main_prompt_missing load_attempts_initializePipeline)

theorem prompt_without_text_witness:
  "snd (initializePipeline (ready_pipeline echo_generator)) = Inr echo_generator
   \<and> snd (main (ready_pipeline echo_generator) [''--prompt''] []) = 1
   \<and> gen_calls (fst (main (ready_pipeline echo_generator) [''--prompt''] [])) = []
   \<and> fst (main (ready_pipeline echo_generator) [''--prompt''] []) =
        displayBanner @ fst (initializePipeline (ready_pipeline echo_generator)) @
        [ConsoleError ''Error: --prompt requires a prompt argument''] @ usage"
  using prompt_without_text [of "ready_pipeline echo_generator" "[]"]
  by simp

text \<open>
  C1. The loader on a machine where only \<open>fp32\<close> can be loaded: the code attempts the one
  configured precision \<open>q4f16\<close>, throws its error, and the process ends with exit status 1;
  \<open>fp32\<close> is never attempted, so no fallback over candidate precisions takes place.
\<close>

theorem loader_single_precision:
  "fp32_only_pipeline echo_generator ''text-generation'' (model CONFIG) ''fp32'' = Inr echo_generator
   \<and> load_attempts (fst (initializePipeline (fp32_only_pipeline echo_generator))) =
       [(''text-generation'', ''onnx-community/DeepSeek-R1-Distill-Qwen-1.5B-ONNX'', ''q4f16'')]
   \<and> snd (initializePipeline (fp32_only_pipeline echo_generator)) =
       Inl (JsError ''unsupported precision q4f16'')
   \<and> snd (main (fp32_only_pipeline echo_generator) [] []) = 1"
proof -
  have f: "snd (initializePipeline (fp32_only_pipeline echo_generator)) =
       Inl (JsError ''unsupported precision q4f16'')"
    by (simp add: snd_initializePipeline fp32_only_pipeline_def CONFIG_def)
  show ?thesis
    by (simp add: f main_load_failure [OF f] load_attempts_initializePipeline)
       (simp add: fp32_only_pipeline_def CONFIG_def)
qed

text \<open>
  C4. The loader when no precision can be loaded: whatever the arguments, the code makes
  one load attempt, for \<open>q4f16\<close>, the error that reaches \<open>main\<close> is the error of that single
  attempt, and the process ends with exit status 1.
\<close>

theorem load_failure_single_reason:
  "load_attempts (fst (main never_loading_pipeline args lines)) =
       [(''text-generation'', ''onnx-community/DeepSeek-R1-Distill-Qwen-1.5B-ONNX'', ''q4f16'')]
   \<and> snd (initializePipeline never_loading_pipeline) = Inl (JsError ''cannot load q4f16'')
   \<and> snd (main never_loading_pipeline args lines) = 1"
proof -
  have f: "snd (initializePipeline never_loading_pipeline) = Inl (JsError ''cannot load q4f16'')"
    by (simp add: snd_initializePipeline never_loading_pipeline_def CONFIG_def)
  show ?thesis
    by (simp add: f main_load_failure [OF f] load_attempts_initializePipeline)
       (simp add: CONFIG_def)
qed


section \<open>Decoding without sampling\<close>

lemma generateResponse_agree:
  assumes "\<And>ms opts. \<not> do_sample opts \<Longrightarrow> g ms opts = g' ms opts"
  shows "generateResponse g p s = generateResponse g' p s"
  by (simp add: generateResponse_def Let_def assms)

lemma askQuestion_agree:
  assumes "\<And>ms opts. \<not> do_sample opts \<Longrightarrow> g ms opts = g' ms opts"
  shows "askQuestion g ls = askQuestion g' ls"
proof (induction ls)
  case Nil
  show ?case by (simp add: askQuestion.simps)
next
  case (Cons l ls)
  have "generateResponse g (trim l) True = generateResponse g' (trim l) True"
    by (rule generateResponse_agree) (rule assms)
  with Cons show ?case by (simp add: askQuestion.simps Let_def)
qed

lemma demo_loop_agree:
  assumes "\<And>ms opts. \<not> do_sample opts \<Longrightarrow> g ms opts = g' ms opts"
  shows "demo_loop g n i ps = demo_loop g' n i ps"
proof (induction ps arbitrary: i)
  case Nil
  show ?case by simp
next
  case (Cons p ps)
  have "generateResponse g p True = generateResponse g' p True"
    by (rule generateResponse_agree) (rule assms)
  with Cons show ?case by simp
qed

lemma modes_agree:
  assumes "\<And>ms opts. \<not> do_sample opts \<Longrightarrow> g ms opts = g' ms opts"
  shows "runInteractiveMode g ls = runInteractiveMode g' ls"
    and "runDemoMode g = runDemoMode g'"
    and "runSinglePrompt g p = runSinglePrompt g' p"
  using askQuestion_agree [of g g' ls, OF assms] demo_loop_agree [of g g', OF assms]
    generateResponse_agree [of g g' p True, OF assms]
  by (simp_all add: runInteractiveMode_def runDemoMode_def runSinglePrompt_def)

lemma main_after_load:
  assumes "snd (initializePipeline pl) = Inr g"
  shows "main pl args lines =
     (case args of
        [] \<Rightarrow> (displayBanner @ fst (initializePipeline pl) @ runInteractiveMode g lines, 0)
      | a # as \<Rightarrow>
          if a = ''--demo'' then
            (case runDemoMode g of
               (t, Inl error) \<Rightarrow> (displayBanner @ fst (initializePipeline pl) @ t @ fatal error, 1)
             | (t, Inr u) \<Rightarrow> (displayBanner @ fst (initializePipeline pl) @ t, 0))
          else if a = ''--prompt'' then
            (if length (a # as) < 2 then
               (displayBanner @ fst (initializePipeline pl) @
                [ConsoleError ''Error: --prompt requires a prompt argument''] @ usage, 1)
             else
               (case runSinglePrompt g (join '' '' as) of
                  (t, Inl error) \<Rightarrow> (displayBanner @ fst (initializePipeline pl) @ t @ fatal error, 1)
                | (t, Inr u) \<Rightarrow> (displayBanner @ fst (initializePipeline pl) @ t, 0)))
          else
            (displayBanner @ fst (initializePipeline pl) @
             [ConsoleError (''Unknown argument: '' @ a)] @ usage, 1))"
  by (subst main_def, subst initializePipeline_Inr [OF assms]) simp

lemma fst_initializePipeline:
  "fst (initializePipeline pl) =
     [ConsoleLog ''Loading model...'',
      ConsoleLog ''First run will download the model (~1GB). Please wait...'',
      ConsoleLog '''',
      PipelineCall ''text-generation'' (model CONFIG) (dtype CONFIG)] @
     (case pl ''text-generation'' (model CONFIG) (dtype CONFIG) of
        Inr generator \<Rightarrow>
          [ConsoleLog ''Model loaded successfully!'',
           ConsoleLog ''NPU acceleration active (if available on your hardware)'',
           ConsoleLog '''']
      | Inl error \<Rightarrow> [ConsoleError (''Error loading model: '' @ message error)])"
  by (simp add: initializePipeline_def Let_def split: sum.splits)

lemma main_seed_independent:
  assumes "\<forall>t m d engine. spl t m d = Inr engine \<longrightarrow>
     (\<forall>r r' ms opts. \<not> do_sample opts \<longrightarrow> engine r ms opts = engine r' ms opts)"
  shows "main (seeded spl r) args lines = main (seeded spl r') args lines"
proof (cases "spl ''text-generation'' (model CONFIG) (dtype CONFIG)")
  case (Inl e)
  then have "snd (initializePipeline (seeded spl r)) = Inl e"
    and "snd (initializePipeline (seeded spl r')) = Inl e"
    and "fst (initializePipeline (seeded spl r)) = fst (initializePipeline (seeded spl r'))"
    by (simp_all add: snd_initializePipeline fst_initializePipeline seeded_def)
  then show ?thesis by (simp add: main_load_failure)
next
  case (Inr engine)
  then have a: "snd (initializePipeline (seeded spl r)) = Inr (engine r)"
    and b: "snd (initializePipeline (seeded spl r')) = Inr (engine r')"
    and c: "fst (initializePipeline (seeded spl r)) = fst (initializePipeline (seeded spl r'))"
    by (simp_all add: snd_initializePipeline fst_initializePipeline seeded_def)
  from assms Inr have d: "\<And>ms opts. \<not> do_sample opts \<Longrightarrow> engine r ms opts = engine r' ms opts"
    by blast
  have i: "runInteractiveMode (engine r) ls = runInteractiveMode (engine r') ls" for ls
    by (rule modes_agree(1)) (rule d)
  have j: "runDemoMode (engine r) = runDemoMode (engine r')"
    by (rule modes_agree(2)) (rule d)
  have k: "runSinglePrompt (engine r) p = runSinglePrompt (engine r') p" for p
    by (rule modes_agree(3)) (rule d)
  show ?thesis
    by (simp only: main_after_load [OF a] main_after_load [OF b] c i j k)
qed

lemma gen_calls_runInteractiveMode:
  "gen_calls (runInteractiveMode g lines) = gen_calls (askQuestion g lines)"
  by (simp add: runInteractiveMode_def)

lemma askQuestion_opts:
  "\<forall>c\<in>set (gen_calls (askQuestion g ls)). snd c = stream_opts"
proof (induction ls)
  case Nil
  show ?case by (simp add: askQuestion.simps)
next
  case (Cons l ls)
  then show ?case
    using gen_calls_generateResponse [of g "trim l"]
    by (auto simp: askQuestion.simps Let_def split: prod.splits sum.splits)
qed

lemma demo_loop_opts:
  "\<forall>c\<in>set (gen_calls (fst (demo_loop g n i ps))). snd c = stream_opts"
proof (induction ps arbitrary: i)
  case Nil
  show ?case by simp
next
  case (Cons p ps)
  obtain t x where r: "generateResponse g p True = (t, x)"
    by (cases "generateResponse g p True")
  with gen_calls_generateResponse [of g p] have t: "gen_calls t = [(single_turn p, stream_opts)]"
    by simp
  obtain t' x' where r': "demo_loop g n (Suc i) ps = (t', x')"
    by (cases "demo_loop g n (Suc i) ps")
  with Cons [of "Suc i"] have t': "\<forall>c\<in>set (gen_calls t'). snd c = stream_opts" by simp
  show ?case
    using t t' by (cases x) (auto simp: r r' Let_def)
qed

lemma main_opts:
  "\<forall>c\<in>set (gen_calls (fst (main pl args lines))). snd c = stream_opts"
proof (cases "snd (initializePipeline pl)")
  case (Inl e)
  then show ?thesis by (simp add: main_load_failure)
next
  case (Inr g)
  show ?thesis
  proof (cases args)
    case Nil
    then show ?thesis
      using askQuestion_opts [of g lines]
      by (simp add: main_interactive [OF Inr] gen_calls_runInteractiveMode)
  next
    case (Cons a as)
    consider "a = ''--demo''" | "a = ''--prompt''" "as = []" | "a = ''--prompt''" "as \<noteq> []"
      | "a \<noteq> ''--demo''" "a \<noteq> ''--prompt''" by blast
    then show ?thesis
    proof cases
      case 1
      then show ?thesis
        using demo_loop_opts [of g "length demos" 0 demos]
        by (simp add: Cons main_demo_calls(1) [OF Inr] gen_calls_runDemoMode)
    next
      case 2
      then show ?thesis
        by (simp add: Cons main_prompt_missing Inr)
    next
      case 3
      then show ?thesis
        using gen_calls_runSinglePrompt [of g "join '' '' as"]
        by (cases "runSinglePrompt g (join '' '' as)"; cases "snd (runSinglePrompt g (join '' '' as))")
           (simp_all add: Cons main_prompt [OF Inr])
    next
      case 4
      then show ?thesis
        by (simp add: Cons main_after_load [OF Inr])
    qed
  qed
qed

text \<open>
  C8. Every generation call, in every mode and with or without streaming, asks for no
  sampling and passes the single user turn of its prompt. Hence, for a library whose
  engines depend on their random seed only when sampling is asked for, the whole run of
  the program (trace and exit status) is the same for any two seeds.
\<close>

theorem deterministic_decoding:
  assumes "\<forall>t m d engine. spl t m d = Inr engine \<longrightarrow>
     (\<forall>r r' ms opts. \<not> do_sample opts \<longrightarrow> engine r ms opts = engine r' ms opts)"
  shows "main (seeded spl r) args lines = main (seeded spl r') args lines
       \<and> (\<forall>c\<in>set (gen_calls (fst (main pl args lines))). \<not> do_sample (snd c))
       \<and> (\<forall>s. \<forall>c\<in>set (gen_calls (fst (generateResponse g prompt s))).
            fst c = [\<lparr> role = ''user'', content = prompt \<rparr>] \<and> \<not> do_sample (snd c))"
proof -
  have "\<not> do_sample stream_opts" by (simp add: stream_opts_def)
  with main_opts [of pl args lines]
  have "\<forall>c\<in>set (gen_calls (fst (main pl args lines))). \<not> do_sample (snd c)" by simp
  moreover have "\<forall>s. \<forall>c\<in>set (gen_calls (fst (generateResponse g prompt s))).
            fst c = [\<lparr> role = ''user'', content = prompt \<rparr>] \<and> \<not> do_sample (snd c)"
    by (simp add: generateResponse_def Let_def split: sum.splits)
  ultimately show ?thesis
    using main_seed_independent [OF assms, of r args lines r'] by blast
qed

theorem deterministic_decoding_witness:
  "sampling_pipeline ''text-generation'' (model CONFIG) (dtype CONFIG) = Inr sampling_engine
   \<and> main (seeded sampling_pipeline 1) [''--prompt'', ''hi''] [] =
       main (seeded sampling_pipeline 2) [''--prompt'', ''hi''] []
   \<and> sampling_engine 1 [] \<lparr> max_new_tokens = 512, do_sample = True, streamer = None \<rparr>
       \<noteq> sampling_engine 2 [] \<lparr> max_new_tokens = 512, do_sample = True, streamer = None \<rparr>"
proof -
  have h: "\<forall>t m d engine. sampling_pipeline t m d = Inr engine \<longrightarrow>
     (\<forall>r r' ms opts. \<not> do_sample opts \<longrightarrow> engine r ms opts = engine r' ms opts)"
    by (auto simp: sampling_pipeline_def sampling_engine_def)
  have n: "show_nat 1 \<noteq> show_nat 2" by code_simp
  have p: "sampling_pipeline ''text-generation'' (model CONFIG) (dtype CONFIG) = Inr sampling_engine"
    by (simp add: sampling_pipeline_def)
  show ?thesis
    using n p deterministic_decoding [OF h, of 1 "[''--prompt'', ''hi'']" "[]" 2]
    by (simp add: sampling_engine_def)
qed

end
